theory Spec2Isabelle
  imports Complex_Main "HOL-Library.Sublist"
begin

section \<open>Values exchanged with the handlers\<close>

text \<open>
  The handlers of \<^verbatim>\<open>main.py\<close> receive what \<^verbatim>\<open>json.loads\<close> (POST) or
  \<^verbatim>\<open>parse_qs\<close> (GET) produced and return dictionaries that \<^verbatim>\<open>json.dumps\<close> prints.
  Both sides are Python objects of the JSON kinds: \<^verbatim>\<open>None\<close>, \<^verbatim>\<open>bool\<close>, \<^verbatim>\<open>int\<close>
  (unbounded), \<^verbatim>\<open>float\<close>, \<^verbatim>\<open>str\<close>, \<^verbatim>\<open>list\<close> and \<^verbatim>\<open>dict\<close> with string keys.
  A float is kept by its exact value: every finite double is a rational number, and the
  decoder also accepts \<^verbatim>\<open>Infinity\<close>, \<^verbatim>\<open>-Infinity\<close> and \<^verbatim>\<open>NaN\<close>.
  A dictionary is the list of its entries in insertion order; a key is looked up with
  \<^const>\<open>map_of\<close>.
\<close>

datatype pyfloat = Finite rat | PosInf | NegInf | NaN

datatype json =
    JNull
  | JBool bool
  | JInt int
  | JFloat pyfloat
  | JStr string
  | JList "json list"
  | JObj "(string \<times> json) list"

text \<open>Exceptions, each with the text that \<^verbatim>\<open>str(e)\<close> gives in the 500 response.\<close>

datatype py_exn =
    IndexError string
  | TypeError string
  | AttributeError string
  | ValueError string

fun str_exn :: "py_exn \<Rightarrow> string" where
  "str_exn (IndexError m) = m"
| "str_exn (TypeError m) = m"
| "str_exn (AttributeError m) = m"
| "str_exn (ValueError m) = m"

fun type_name :: "json \<Rightarrow> string" where
  "type_name JNull = ''NoneType''"
| "type_name (JBool _) = ''bool''"
| "type_name (JInt _) = ''int''"
| "type_name (JFloat _) = ''float''"
| "type_name (JStr _) = ''str''"
| "type_name (JList _) = ''list''"
| "type_name (JObj _) = ''dict''"

subsection \<open>\<^verbatim>\<open>args.get(key)\<close>\<close>

text \<open>
  Only a dictionary has the method \<^verbatim>\<open>get\<close>; on any other decoded body the attribute
  lookup raises. \<^verbatim>\<open>dict.get\<close> returns \<^verbatim>\<open>None\<close> for a missing key, which the handlers
  cannot tell from a key that is present with the value \<^verbatim>\<open>null\<close>.
\<close>

definition dict_get :: "(string \<times> json) list \<Rightarrow> string \<Rightarrow> json" where
  "dict_get kvs k = (case map_of kvs k of None \<Rightarrow> JNull | Some v \<Rightarrow> v)"

fun args_get :: "json \<Rightarrow> string \<Rightarrow> py_exn + json" where
  "args_get (JObj kvs) k = Inr (dict_get kvs k)"
| "args_get v k =
     Inl (AttributeError ([CHR 0x27] @ type_name v @ [CHR 0x27] @ '' object has no attribute '' @
        [CHR 0x27] @ ''get'' @ [CHR 0x27]))"

subsection \<open>Equality\<close>

text \<open>
  Python compares numbers by value across \<^verbatim>\<open>bool\<close>, \<^verbatim>\<open>int\<close> and \<^verbatim>\<open>float\<close>
  (\<^verbatim>\<open>True == 1\<close>, \<^verbatim>\<open>1000 == 1000.0\<close>), exactly, and \<^verbatim>\<open>NaN\<close> equals nothing.
\<close>

datatype pynum = NInt int | NFloat pyfloat

fun as_number :: "json \<Rightarrow> pynum option" where
  "as_number (JBool b) = Some (NInt (if b then 1 else 0))"
| "as_number (JInt i) = Some (NInt i)"
| "as_number (JFloat f) = Some (NFloat f)"
| "as_number _ = None"

fun float_eq :: "pyfloat \<Rightarrow> pyfloat \<Rightarrow> bool" where
  "float_eq (Finite a) (Finite b) = (a = b)"
| "float_eq PosInf PosInf = True"
| "float_eq NegInf NegInf = True"
| "float_eq _ _ = False"

fun num_eq :: "pynum \<Rightarrow> pynum \<Rightarrow> bool" where
  "num_eq (NInt a) (NInt b) = (a = b)"
| "num_eq (NInt a) (NFloat f) = float_eq (Finite (of_int a)) f"
| "num_eq (NFloat f) (NInt b) = float_eq f (Finite (of_int b))"
| "num_eq (NFloat f) (NFloat g) = float_eq f g"

text \<open>\<^verbatim>\<open>item["id"] == item_id\<close>: a stored integer id against a decoded value.\<close>

definition int_eq :: "int \<Rightarrow> json \<Rightarrow> bool" where
  "int_eq i v = (case as_number v of None \<Rightarrow> False | Some n \<Rightarrow> num_eq (NInt i) n)"

text \<open>
  Containers (\<^verbatim>\<open>x in list\<close>, \<^verbatim>\<open>list == list\<close>, \<^verbatim>\<open>dict == dict\<close>,
  \<^verbatim>\<open>list.remove\<close>) compare their elements with \<^verbatim>\<open>a is b or a == b\<close>. Among decoded
  values identity adds one case to equality: the decoder returns one and the same
  \<^verbatim>\<open>NaN\<close> object for every \<^verbatim>\<open>NaN\<close> it reads.
\<close>

fun same_or_eq :: "json \<Rightarrow> json \<Rightarrow> bool"
  and same_or_eq_list :: "json list \<Rightarrow> json list \<Rightarrow> bool"
  and same_or_eq_entries :: "(string \<times> json) list \<Rightarrow> (string \<times> json) list \<Rightarrow> bool" where
  "same_or_eq JNull w = (w = JNull)"
| "same_or_eq (JBool b) w =
     (case as_number w of None \<Rightarrow> False | Some n \<Rightarrow> num_eq (NInt (if b then 1 else 0)) n)"
| "same_or_eq (JInt i) w = (case as_number w of None \<Rightarrow> False | Some n \<Rightarrow> num_eq (NInt i) n)"
| "same_or_eq (JFloat f) w =
     (case as_number w of None \<Rightarrow> False
      | Some n \<Rightarrow> (f = NaN \<and> n = NFloat NaN) \<or> num_eq (NFloat f) n)"
| "same_or_eq (JStr s) w = (case w of JStr t \<Rightarrow> s = t | _ \<Rightarrow> False)"
| "same_or_eq (JList xs) w = (case w of JList ys \<Rightarrow> same_or_eq_list xs ys | _ \<Rightarrow> False)"
| "same_or_eq (JObj a) w =
     (case w of
        JObj b \<Rightarrow> card (fst ` set a) = card (fst ` set b) \<and> same_or_eq_entries a b
      | _ \<Rightarrow> False)"
| "same_or_eq_list [] ys = (ys = [])"
| "same_or_eq_list (x # xs) ys =
     (case ys of [] \<Rightarrow> False | y # ys' \<Rightarrow> same_or_eq x y \<and> same_or_eq_list xs ys')"
| "same_or_eq_entries [] b = True"
| "same_or_eq_entries ((k, v) # a) b =
     ((case map_of b k of None \<Rightarrow> False | Some w \<Rightarrow> same_or_eq v w) \<and> same_or_eq_entries a b)"

subsection \<open>\<^verbatim>\<open>q in name\<close>\<close>

text \<open>
  What \<^verbatim>\<open>in\<close> does depends on the right operand: a substring test on a string (the
  left operand must be a string too), membership in a list, key membership in a
  dictionary (the left operand must be hashable), and a \<^verbatim>\<open>TypeError\<close> on anything that
  is not a container.
\<close>

definition py_in :: "json \<Rightarrow> json \<Rightarrow> py_exn + bool" where
  "py_in q c =
     (case c of
        JStr s \<Rightarrow>
          (case q of
             JStr t \<Rightarrow> Inr (sublist t s)
           | _ \<Rightarrow> Inl (TypeError ([CHR 0x27] @ ''in <string>'' @ [CHR 0x27] @
                  '' requires string as left operand, not '' @ type_name q)))
      | JList xs \<Rightarrow> Inr (list_ex (\<lambda>x. same_or_eq x q) xs)
      | JObj kvs \<Rightarrow>
          (case q of
             JList _ \<Rightarrow> Inl (TypeError (''unhashable type: '' @ [CHR 0x27] @ ''list'' @ [CHR 0x27]))
           | JObj _ \<Rightarrow> Inl (TypeError (''unhashable type: '' @ [CHR 0x27] @ ''dict'' @ [CHR 0x27]))
           | JStr t \<Rightarrow> Inr (t \<in> fst ` set kvs)
           | _ \<Rightarrow> Inr False)
      | _ \<Rightarrow> Inl (TypeError (''argument of type '' @ [CHR 0x27] @ type_name c @ [CHR 0x27] @
               '' is not iterable'')))"

subsection \<open>String formatting\<close>

text \<open>
  The f-string of \<^verbatim>\<open>delete\<close> prints the id with \<^verbatim>\<open>str\<close>: a string as it is, an
  integer in decimal, a boolean as \<^verbatim>\<open>True\<close> or \<^verbatim>\<open>False\<close>. The printing of floats,
  lists and dictionaries (the interpreter's \<^verbatim>\<open>repr\<close>) is no part of the program and is
  taken as the parameter \<open>other\<close>.
\<close>

definition digit :: "nat \<Rightarrow> char" where
  "digit d = ''0123456789'' ! d"

fun show_nat :: "nat \<Rightarrow> string" where
  "show_nat n = (if n < 10 then [digit n] else show_nat (n div 10) @ [digit (n mod 10)])"

declare show_nat.simps [simp del]

definition show_int :: "int \<Rightarrow> string" where
  "show_int i = (if i < 0 then CHR ''-'' # show_nat (nat (- i)) else show_nat (nat i))"

definition py_format :: "(json \<Rightarrow> string) \<Rightarrow> json \<Rightarrow> string" where
  "py_format other v =
     (case v of
        JStr s \<Rightarrow> s
      | JInt i \<Rightarrow> show_int i
      | JBool b \<Rightarrow> (if b then ''True'' else ''False'')
      | JNull \<Rightarrow> ''None''
      | _ \<Rightarrow> other v)"

section \<open>The data store\<close>

text \<open>
  An item is a dictionary with the keys \<^verbatim>\<open>id\<close>, \<^verbatim>\<open>name\<close> and \<^verbatim>\<open>description\<close>.
  The id is always an integer (the initial ids, and sums of one of them and 1); name and
  description are whatever value the request body of \<^verbatim>\<open>/add\<close> gave them. The field
  of the id is called \<open>ident\<close> here, \<open>id\<close> being the identity function of HOL.
\<close>

record item =
  ident :: int
  name :: json
  description :: json

definition item_json :: "item \<Rightarrow> json" where
  "item_json it = JObj [(''id'', JInt (ident it)), (''name'', name it), (''description'', description it)]"

definition example_data :: "item list" where
  "example_data =
     [\<lparr>ident = 1000, name = JStr ''cat'', description = JStr ''cat is meowing''\<rparr>,
      \<lparr>ident = 1001, name = JStr ''dog'', description = JStr ''dog is barking''\<rparr>,
      \<lparr>ident = 1002, name = JStr ''bird'', description = JStr ''bird is singing''\<rparr>]"

text \<open>Equality of two items as dictionaries, the test of \<^verbatim>\<open>list.remove\<close>.\<close>

definition item_eq :: "item \<Rightarrow> item \<Rightarrow> bool" where
  "item_eq a b =
     (ident a = ident b \<and> same_or_eq (name a) (name b) \<and> same_or_eq (description a) (description b))"

text \<open>
  \<^verbatim>\<open>lst.remove(x)\<close> deletes the first element that is \<open>x\<close> itself or equals it, and
  raises when there is none. The object \<open>x\<close> of \<^verbatim>\<open>delete\<close> is an element of the
  list: \<open>p\<close> is its position, counted down during the scan.
\<close>

fun list_remove :: "nat \<Rightarrow> item \<Rightarrow> item list \<Rightarrow> py_exn + item list" where
  "list_remove p x [] = Inl (ValueError ''list.remove(x): x not in list'')"
| "list_remove p x (y # ys) =
     (if p = 0 \<or> item_eq y x then Inr ys
      else (case list_remove (p - 1) x ys of Inl e \<Rightarrow> Inl e | Inr r \<Rightarrow> Inr (y # r)))"

section \<open>The handlers\<close>

text \<open>
  A handler reads and updates the global \<^verbatim>\<open>example_data["items"]\<close>: here it takes the
  list and returns, beside its outcome (the returned dictionary, or the exception it
  raised), the list it leaves behind.
\<close>

type_synonym outcome = "(py_exn + json) \<times> item list"

definition index :: "string \<Rightarrow> item list \<Rightarrow> json \<Rightarrow> outcome" where
  "index hostname items _ =
     (Inr (JObj [(''name'', JStr ''Python REST API Example''),
                 (''summary'', JStr ''Simple REST API with pure Python''),
                 (''version'', JStr ''1.0.0''),
                 (''hostname'', JStr hostname)]), items)"

definition list_items :: "item list \<Rightarrow> json \<Rightarrow> outcome" where
  "list_items items _ =
     (Inr (JObj [(''count'', JInt (int (length items))), (''items'', JList (map item_json items))]),
      items)"

text \<open>The list comprehension of \<^verbatim>\<open>search\<close>: the first test that raises ends it.\<close>

fun search_results :: "json \<Rightarrow> item list \<Rightarrow> py_exn + item list" where
  "search_results q [] = Inr []"
| "search_results q (it # its) =
     (case py_in q (name it) of
        Inl e \<Rightarrow> Inl e
      | Inr b \<Rightarrow>
          (case search_results q its of
             Inl e \<Rightarrow> Inl e
           | Inr r \<Rightarrow> Inr (if b then it # r else r)))"

definition search :: "item list \<Rightarrow> json \<Rightarrow> outcome" where
  "search items args =
     (case args_get args ''q'' of
        Inl e \<Rightarrow> (Inl e, items)
      | Inr q \<Rightarrow>
          if q = JNull then (Inr (JObj [(''error'', JStr ''q parameter required'')]), items)
          else
            (case search_results q items of
               Inl e \<Rightarrow> (Inl e, items)
             | Inr results \<Rightarrow>
                 (Inr (JObj [(''count'', JInt (int (length results))),
                             (''items'', JList (map item_json results))]), items)))"

definition add :: "item list \<Rightarrow> json \<Rightarrow> outcome" where
  "add items args =
     (if items = [] then (Inl (IndexError ''list index out of range''), items)
      else
        let last_id = ident (last items) in
        (case args_get args ''name'' of
           Inl e \<Rightarrow> (Inl e, items)
         | Inr name' \<Rightarrow>
             (case args_get args ''description'' of
                Inl e \<Rightarrow> (Inl e, items)
              | Inr description' \<Rightarrow>
                  if name' = JNull \<or> description' = JNull
                  then (Inr (JObj [(''error'', JStr ''name and description are required'')]), items)
                  else
                    let item = \<lparr>ident = last_id + 1, name = name', description = description'\<rparr>
                    in (Inr (item_json item), items @ [item]))))"

text \<open>The \<^verbatim>\<open>for\<close> loop of \<^verbatim>\<open>delete\<close>: the position of the first item whose id matches.\<close>

fun first_match :: "json \<Rightarrow> item list \<Rightarrow> nat option" where
  "first_match item_id [] = None"
| "first_match item_id (it # its) =
     (if int_eq (ident it) item_id then Some 0
      else (case first_match item_id its of None \<Rightarrow> None | Some p \<Rightarrow> Some (Suc p)))"

definition delete :: "(json \<Rightarrow> string) \<Rightarrow> item list \<Rightarrow> json \<Rightarrow> outcome" where
  "delete other items args =
     (case args_get args ''id'' of
        Inl e \<Rightarrow> (Inl e, items)
      | Inr item_id \<Rightarrow>
          if item_id = JNull then (Inr (JObj [(''error'', JStr ''id parameter required'')]), items)
          else
            (case first_match item_id items of
               Some p \<Rightarrow>
                 (case list_remove p (items ! p) items of
                    Inl e \<Rightarrow> (Inl e, items)
                  | Inr items' \<Rightarrow> (Inr (JObj [(''deleted'', item_id)]), items'))
             | None \<Rightarrow>
                 (Inr (JObj [(''error'', JStr (''item not found with id '' @ py_format other item_id))]),
                  items)))"

section \<open>Routing and the request handler\<close>

datatype meth = GET | POST

text \<open>
  What the server process holds between requests: the counter \<^verbatim>\<open>REQUESTS_TOTAL\<close>, the
  two gauges, and \<^verbatim>\<open>example_data["items"]\<close>. The field \<open>trace\<close> is not in the program:
  it records, in order, that a request body was read and which handler was invoked, so
  that "no handler runs" and "the body is not read" can be stated.
\<close>

datatype event = ReadBody | Invoke meth string

record server =
  requests_total :: nat
  cpu_usage :: rat
  ram_usage :: rat
  items :: "item list"
  trace :: "event list"

text \<open>
  What the program asks of its surroundings: the host name, the two readings of
  \<^verbatim>\<open>psutil\<close>, and the interpreter's printing of floats, lists and dictionaries.
\<close>

record env =
  gethostname :: string
  cpu_percent :: rat
  virtual_memory_percent :: rat
  repr_other :: "json \<Rightarrow> string"

datatype body = Json json | Plain string | Exposition nat rat rat

record response =
  status :: nat
  body :: body

text \<open>
  \<^verbatim>\<open>api.routing\<close> after the five decorators have run. \<^verbatim>\<open>call_api\<close> is only ever
  called with the method \<^verbatim>\<open>"GET"\<close> or \<^verbatim>\<open>"POST"\<close>.
\<close>

definition routing :: "env \<Rightarrow> meth \<Rightarrow> string \<Rightarrow> (item list \<Rightarrow> json \<Rightarrow> outcome) option" where
  "routing e m path =
     (case m of
        GET \<Rightarrow>
          (if path = ''/'' then Some (index (gethostname e))
           else if path = ''/list'' then Some list_items
           else if path = ''/search'' then Some search
           else None)
      | POST \<Rightarrow>
          (if path = ''/add'' then Some add
           else if path = ''/delete'' then Some (delete (repr_other e))
           else None))"

definition call_api :: "env \<Rightarrow> server \<Rightarrow> meth \<Rightarrow> string \<Rightarrow> json \<Rightarrow> response \<times> server" where
  "call_api e st m path args =
     (let st1 = st\<lparr>requests_total := requests_total st + 1\<rparr> in
      case routing e m path of
        Some handler \<Rightarrow>
          (case handler (items st1) args of
             (Inr result, items') \<Rightarrow>
               (\<lparr>status = 200, body = Json result\<rparr>,
                st1\<lparr>items := items', trace := trace st1 @ [Invoke m path]\<rparr>)
           | (Inl ex, items') \<Rightarrow>
               (\<lparr>status = 500, body = Json (JObj [(''error'', JStr (str_exn ex))])\<rparr>,
                st1\<lparr>items := items', trace := trace st1 @ [Invoke m path]\<rparr>))
      | None \<Rightarrow>
          (\<lparr>status = 404, body = Json (JObj [(''error'', JStr ''not found'')])\<rparr>, st1))"

text \<open>
  A GET request as \<^verbatim>\<open>urlparse\<close> and \<^verbatim>\<open>parse_qs\<close> deliver it: the path, and for every
  key of the query string the list of its values. A key with one value is collapsed to
  that value.
\<close>

record get_request =
  get_path :: string
  query :: "(string \<times> string list) list"

definition collapse :: "(string \<times> string list) list \<Rightarrow> (string \<times> json) list" where
  "collapse qs = map (\<lambda>(k, vs). (k, case vs of [v] \<Rightarrow> JStr v | _ \<Rightarrow> JList (map JStr vs))) qs"

definition do_GET :: "env \<Rightarrow> server \<Rightarrow> get_request \<Rightarrow> response \<times> server" where
  "do_GET e st rq =
     (let path = get_path rq; args = JObj (collapse (query rq)) in
      if path = ''/health'' then (\<lparr>status = 200, body = Plain ''OK''\<rparr>, st)
      else if path = ''/metrics'' then
        (let st1 = st\<lparr>cpu_usage := cpu_percent e, ram_usage := virtual_memory_percent e\<rparr>
         in (\<lparr>status = 200,
              body = Exposition (requests_total st1) (cpu_usage st1) (ram_usage st1)\<rparr>, st1))
      else call_api e st GET path args)"



section \<open>Notions the properties are stated with\<close>

text \<open>The stores that calls of \<^verbatim>\<open>/add\<close> and \<^verbatim>\<open>/delete\<close> can produce from the initial data,
  whatever the arguments and whatever the outcome of each call.\<close>

inductive reachable :: "item list \<Rightarrow> bool" where
  initial: "reachable example_data"
| after_add: "reachable xs \<Longrightarrow> reachable (snd (add xs args))"
| after_delete: "reachable xs \<Longrightarrow> reachable (snd (delete other xs args))"





text \<open>A server at start-up and an environment, for the closed instances below.\<close>

definition startup :: server where
  "startup = \<lparr>requests_total = 0, cpu_usage = 0, ram_usage = 0, items = example_data, trace = []\<rparr>"

definition sample_env :: env where
  "sample_env = \<lparr>gethostname = ''host'', cpu_percent = 0, virtual_memory_percent = 0,
     repr_other = (\<lambda>_. ''?'')\<rparr>"

subsection \<open>The behaviour the specification words describe\<close>

text \<open>
  The three definitions below follow the sentences of the specification, not the
  program: they say what \<^verbatim>\<open>/add\<close>, \<^verbatim>\<open>/delete\<close> and \<^verbatim>\<open>/search\<close> would have to return
  if the sentences held as written, with "lacks the key" read as the key being absent.
\<close>

definition claimed_add :: "item list \<Rightarrow> (string \<times> json) list \<Rightarrow> bool" where
  "claimed_add xs kvs =
     (if map_of kvs ''name'' = None \<or> map_of kvs ''description'' = None
      then add xs (JObj kvs) = (Inr (JObj [(''error'', JStr ''name and description are required'')]), xs)
      else (\<exists>it. ident it = ident (last xs) + 1 \<and> add xs (JObj kvs) = (Inr (item_json it), xs @ [it])))"

definition claimed_delete :: "(json \<Rightarrow> string) \<Rightarrow> item list \<Rightarrow> (string \<times> json) list \<Rightarrow> bool" where
  "claimed_delete other xs kvs =
     (case map_of kvs ''id'' of
        None \<Rightarrow> delete other xs (JObj kvs) = (Inr (JObj [(''error'', JStr ''id parameter required'')]), xs)
      | Some v \<Rightarrow>
          if list_ex (\<lambda>it. int_eq (ident it) v) xs
          then (\<exists>p. p < length xs \<and> int_eq (ident (xs ! p)) v \<and>
                  delete other xs (JObj kvs) = (Inr (JObj [(''deleted'', v)]), take p xs @ drop (Suc p) xs))
          else delete other xs (JObj kvs) =
                 (Inr (JObj [(''error'', JStr (''item not found with id '' @ py_format other v))]), xs))"


section \<open>Auxiliary facts\<close>

lemma item_eq_ident: "item_eq a b \<Longrightarrow> ident a = ident b"
  by (simp add: item_eq_def)

lemma list_remove_at:
  "p < length xs \<Longrightarrow> (\<forall>j<p. \<not> item_eq (xs ! j) x) \<Longrightarrow>
   list_remove p x xs = Inr (take p xs @ drop (Suc p) xs)"
proof (induction xs arbitrary: p)
  case Nil
  then show ?case by simp
next
  case (Cons y ys)
  show ?case
  proof (cases p)
    case 0
    then show ?thesis by simp
  next
    case (Suc k)
    from Cons.prems Suc have k: "k < length ys" by simp
    from Cons.prems Suc have ny: "\<not> item_eq y x" by auto
    from Cons.prems Suc have "\<forall>j<k. \<not> item_eq (ys ! j) x" by auto
    with Cons.IH [OF k] have "list_remove k x ys = Inr (take k ys @ drop (Suc k) ys)" by simp
    with Suc ny show ?thesis by simp
  qed
qed

lemma first_match_Some:
  "first_match v xs = Some p \<Longrightarrow>
   p < length xs \<and> int_eq (ident (xs ! p)) v \<and> (\<forall>j<p. \<not> int_eq (ident (xs ! j)) v)"
proof (induction xs arbitrary: p)
  case Nil
  then show ?case by simp
next
  case (Cons y ys)
  show ?case
  proof (cases "int_eq (ident y) v")
    case True
    with Cons.prems show ?thesis by simp
  next
    case False
    with Cons.prems obtain k where k: "first_match v ys = Some k" and p: "p = Suc k"
      by (auto split: option.splits)
    from Cons.IH [OF k] False p show ?thesis
      by (auto simp: less_Suc_eq_0_disj)
  qed
qed

lemma first_match_None:
  "first_match v xs = None \<longleftrightarrow> (\<forall>it\<in>set xs. \<not> int_eq (ident it) v)"
  by (induction xs) (auto split: option.splits)

lemma first_match_least:
  "p < length xs \<Longrightarrow> int_eq (ident (xs ! p)) v \<Longrightarrow> (\<forall>j<p. \<not> int_eq (ident (xs ! j)) v) \<Longrightarrow>
   first_match v xs = Some p"
proof -
  assume a: "p < length xs" "int_eq (ident (xs ! p)) v" "\<forall>j<p. \<not> int_eq (ident (xs ! j)) v"
  then have "first_match v xs \<noteq> None" by (auto simp: first_match_None)
  then obtain k where k: "first_match v xs = Some k" by auto
  from first_match_Some [OF k] a have "k = p"
    by (metis linorder_neqE_nat)
  with k show ?thesis by simp
qed

lemma delete_found:
  assumes "dict_get kvs ''id'' \<noteq> JNull" and "first_match (dict_get kvs ''id'') xs = Some p"
  shows "delete other xs (JObj kvs) =
         (Inr (JObj [(''deleted'', dict_get kvs ''id'')]), take p xs @ drop (Suc p) xs)"
proof -
  let ?v = "dict_get kvs ''id''"
  from first_match_Some [OF assms(2)]
  have p: "p < length xs" and m: "int_eq (ident (xs ! p)) ?v"
    and l: "\<forall>j<p. \<not> int_eq (ident (xs ! j)) ?v" by auto
  have "\<forall>j<p. \<not> item_eq (xs ! j) (xs ! p)"
  proof (intro allI impI notI)
    fix j assume "j < p" "item_eq (xs ! j) (xs ! p)"
    then have "ident (xs ! j) = ident (xs ! p)" by (simp add: item_eq_ident)
    with m l \<open>j < p\<close> show False by metis
  qed
  with p have "list_remove p (xs ! p) xs = Inr (take p xs @ drop (Suc p) xs)"
    by (rule list_remove_at)
  with assms show ?thesis by (simp add: delete_def)
qed

lemma delete_missing:
  assumes "dict_get kvs ''id'' \<noteq> JNull" and "first_match (dict_get kvs ''id'') xs = None"
  shows "delete other xs (JObj kvs) =
         (Inr (JObj [(''error'', JStr (''item not found with id '' @ py_format other (dict_get kvs ''id'')))]), xs)"
  using assms by (simp add: delete_def)

lemma delete_required:
  "dict_get kvs ''id'' = JNull \<Longrightarrow>
   delete other xs (JObj kvs) = (Inr (JObj [(''error'', JStr ''id parameter required'')]), xs)"
  by (simp add: delete_def)


lemma sorted_ids_append:
  assumes ne: "xs \<noteq> []" and so: "sorted_wrt (<) (map ident xs)"
  shows "sorted_wrt (<) (map ident (xs @ [\<lparr>ident = ident (last xs) + 1, name = n, description = d\<rparr>]))"
proof -
  from ne have "map ident xs = map ident (butlast xs) @ [ident (last xs)]"
    by (metis append_butlast_last_id list.simps(8) list.simps(9) map_append)
  with so have "sorted_wrt (<) (map ident (butlast xs) @ [ident (last xs)])" by simp
  then have "\<forall>x\<in>set (butlast xs). ident x < ident (last xs)"
    by (simp add: sorted_wrt_append)
  moreover from ne have "set xs = insert (last xs) (set (butlast xs))"
    by (metis append_butlast_last_id list.simps(15) rotate1.simps(2) set_rotate1)
  ultimately have "\<forall>x\<in>set xs. ident x < ident (last xs) + 1" by auto
  with so show ?thesis by (simp add: sorted_wrt_append)
qed

lemma add_store:
  "snd (add xs a) = xs \<or>
   (xs \<noteq> [] \<and> (\<exists>n d. snd (add xs a) = xs @ [\<lparr>ident = ident (last xs) + 1, name = n, description = d\<rparr>]))"
  by (cases a) (auto simp: add_def Let_def)

lemma delete_store:
  "snd (delete other xs a) = xs \<or> (\<exists>p<length xs. snd (delete other xs a) = take p xs @ drop (Suc p) xs)"
proof (cases a)
  case (JObj kvs)
  show ?thesis
  proof (cases "dict_get kvs ''id'' = JNull")
    case True
    with JObj show ?thesis by (simp add: delete_required)
  next
    case False
    show ?thesis
    proof (cases "first_match (dict_get kvs ''id'') xs")
      case None
      with False JObj show ?thesis by (simp add: delete_missing)
    next
      case (Some p)
      from first_match_Some [OF Some] have "p < length xs" by simp
      with False Some JObj show ?thesis by (auto simp: delete_found)
    qed
  qed
qed (simp_all add: delete_def)

lemma sorted_ids_remove:
  assumes p: "p < length xs" and so: "sorted_wrt (<) (map ident xs)"
  shows "sorted_wrt (<) (map ident (take p xs @ drop (Suc p) xs))"
proof -
  from id_take_nth_drop [OF p]
  have "map ident xs = map ident (take p xs) @ ident (xs ! p) # map ident (drop (Suc p) xs)"
    by (metis list.simps(9) map_append)
  with so have "sorted_wrt (<) (map ident (take p xs) @ ident (xs ! p) # map ident (drop (Suc p) xs))"
    by simp
  then show ?thesis by (auto simp: sorted_wrt_append)
qed

lemma reachable_sorted: "reachable xs \<Longrightarrow> sorted_wrt (<) (map ident xs)"
proof (induction rule: reachable.induct)
  case initial
  show ?case by (simp add: example_data_def)
next
  case (after_add xs args)
  from add_store [of xs args] after_add.IH show ?case
    by (auto simp only: dest: sorted_ids_append)
next
  case (after_delete xs other args)
  from delete_store [of other xs args] after_delete.IH show ?case
    by (auto simp only: intro: sorted_ids_remove)
qed

lemma reachable_distinct: "reachable xs \<Longrightarrow> distinct (map ident xs)"
  by (drule reachable_sorted) (simp add: strict_sorted_iff)

section \<open>The \<^verbatim>\<open>/add\<close> handler\<close>

text \<open>
  Against C1 as it is worded. On the empty store \<^verbatim>\<open>/add\<close> raises, whatever the
  arguments, where the sentence promises the error value; and with \<^verbatim>\<open>"name": null\<close> the
  key is there, yet the handler answers with the error value and appends nothing.
\<close>

theorem add_counterexample:
  "\<not> claimed_add [] [] \<and>
   \<not> claimed_add example_data [(''name'', JNull), (''description'', JStr ''d'')]"
  by (simp add: claimed_add_def add_def dict_get_def example_data_def)

text \<open>
  C1, amended. On every store that is not empty and for every dictionary of arguments:
  when \<^verbatim>\<open>name\<close> or \<^verbatim>\<open>description\<close> is missing or \<^verbatim>\<open>null\<close>, \<^verbatim>\<open>/add\<close> returns
  \<^verbatim>\<open>{"error": "name and description are required"}\<close> and leaves the store as it was;
  otherwise it appends the item whose id is the id of the last item plus 1, with the
  given name and description, and returns that item. On the three initial items the
  arguments \<^verbatim>\<open>{"name": "fish", "description": "fish swims"}\<close> give the id 1003.
\<close>

theorem add_on_nonempty_store:
  assumes "xs \<noteq> []"
  shows "(map_of kvs ''name'' = None \<or> map_of kvs ''name'' = Some JNull \<or>
          map_of kvs ''description'' = None \<or> map_of kvs ''description'' = Some JNull \<longrightarrow>
            add xs (JObj kvs) =
              (Inr (JObj [(''error'', JStr ''name and description are required'')]), xs)) \<and>
         (map_of kvs ''name'' = Some n \<and> n \<noteq> JNull \<and>
          map_of kvs ''description'' = Some d \<and> d \<noteq> JNull \<longrightarrow>
            add xs (JObj kvs) =
              (Inr (JObj [(''id'', JInt (ident (last xs) + 1)), (''name'', n), (''description'', d)]),
               xs @ [\<lparr>ident = ident (last xs) + 1, name = n, description = d\<rparr>])) \<and>
         add example_data (JObj [(''name'', JStr ''fish''), (''description'', JStr ''fish swims'')]) =
           (Inr (JObj [(''id'', JInt 1003), (''name'', JStr ''fish''), (''description'', JStr ''fish swims'')]),
            example_data @ [\<lparr>ident = 1003, name = JStr ''fish'', description = JStr ''fish swims''\<rparr>])"
proof (intro conjI impI)
  assume "map_of kvs ''name'' = None \<or> map_of kvs ''name'' = Some JNull \<or>
          map_of kvs ''description'' = None \<or> map_of kvs ''description'' = Some JNull"
  then have "dict_get kvs ''name'' = JNull \<or> dict_get kvs ''description'' = JNull"
    by (auto simp: dict_get_def)
  with assms show "add xs (JObj kvs) =
      (Inr (JObj [(''error'', JStr ''name and description are required'')]), xs)"
    by (auto simp: add_def)
next
  assume "map_of kvs ''name'' = Some n \<and> n \<noteq> JNull \<and>
          map_of kvs ''description'' = Some d \<and> d \<noteq> JNull"
  then have "dict_get kvs ''name'' = n" "dict_get kvs ''description'' = d" "n \<noteq> JNull" "d \<noteq> JNull"
    by (simp_all add: dict_get_def)
  with assms show "add xs (JObj kvs) =
      (Inr (JObj [(''id'', JInt (ident (last xs) + 1)), (''name'', n), (''description'', d)]),
       xs @ [\<lparr>ident = ident (last xs) + 1, name = n, description = d\<rparr>])"
    by (simp add: add_def item_json_def Let_def)
next
  show "add example_data (JObj [(''name'', JStr ''fish''), (''description'', JStr ''fish swims'')]) =
           (Inr (JObj [(''id'', JInt 1003), (''name'', JStr ''fish''), (''description'', JStr ''fish swims'')]),
            example_data @ [\<lparr>ident = 1003, name = JStr ''fish'', description = JStr ''fish swims''\<rparr>])"
    by (simp add: add_def dict_get_def example_data_def item_json_def)
qed

text \<open>The theorem at a store of one item, once with both keys and once without \<^verbatim>\<open>name\<close>.\<close>

theorem add_on_nonempty_store_witness:
  "add [\<lparr>ident = 7, name = JStr ''ant'', description = JStr ''ant is small''\<rparr>]
       (JObj [(''description'', JStr ''owl hoots''), (''name'', JStr ''owl'')]) =
     (Inr (JObj [(''id'', JInt 8), (''name'', JStr ''owl''), (''description'', JStr ''owl hoots'')]),
      [\<lparr>ident = 7, name = JStr ''ant'', description = JStr ''ant is small''\<rparr>,
       \<lparr>ident = 8, name = JStr ''owl'', description = JStr ''owl hoots''\<rparr>]) \<and>
   add [\<lparr>ident = 7, name = JStr ''ant'', description = JStr ''ant is small''\<rparr>]
       (JObj [(''description'', JStr ''owl hoots'')]) =
     (Inr (JObj [(''error'', JStr ''name and description are required'')]),
      [\<lparr>ident = 7, name = JStr ''ant'', description = JStr ''ant is small''\<rparr>])"
proof -
  let ?xs = "[\<lparr>ident = 7, name = JStr ''ant'', description = JStr ''ant is small''\<rparr>]"
  have ne: "?xs \<noteq> []" by simp
  from add_on_nonempty_store [OF ne, of "[(''description'', JStr ''owl hoots''), (''name'', JStr ''owl'')]"
      "JStr ''owl''" "JStr ''owl hoots''"]
    add_on_nonempty_store [OF ne, of "[(''description'', JStr ''owl hoots'')]"]
  show ?thesis by simp
qed

section \<open>Ids and order of the store\<close>

text \<open>
  C2. In every store that calls of \<^verbatim>\<open>/add\<close> and \<^verbatim>\<open>/delete\<close> can produce from the three
  initial items, the ids are pairwise different; and a further call of either handler
  leaves the store as it is, appends one item at the end (\<^verbatim>\<open>/add\<close>) or takes one item
  out (\<^verbatim>\<open>/delete\<close>), so that the items that stay keep their order.
\<close>

theorem ids_unique_order_kept:
  assumes "reachable xs"
  shows "distinct (map ident xs) \<and>
         (snd (add xs args) = xs \<or> (\<exists>it. snd (add xs args) = xs @ [it])) \<and>
         (snd (delete other xs args') = xs \<or>
          (\<exists>p<length xs. snd (delete other xs args') = take p xs @ drop (Suc p) xs))"
proof (intro conjI)
  from assms show "distinct (map ident xs)" by (rule reachable_distinct)
  from add_store [of xs args]
  show "snd (add xs args) = xs \<or> (\<exists>it. snd (add xs args) = xs @ [it])" by auto
  show "snd (delete other xs args') = xs \<or>
          (\<exists>p<length xs. snd (delete other xs args') = take p xs @ drop (Suc p) xs)"
    by (rule delete_store)
qed

text \<open>The theorem at the store that one call of \<^verbatim>\<open>/add\<close> produces.\<close>

theorem ids_unique_order_kept_witness:
  "reachable (example_data @ [\<lparr>ident = 1003, name = JStr ''fish'', description = JStr ''fish swims''\<rparr>]) \<and>
   distinct (map ident
     (example_data @ [\<lparr>ident = 1003, name = JStr ''fish'', description = JStr ''fish swims''\<rparr>]))"
proof -
  let ?a = "JObj [(''name'', JStr ''fish''), (''description'', JStr ''fish swims'')]"
  have "snd (add example_data ?a) =
      example_data @ [\<lparr>ident = 1003, name = JStr ''fish'', description = JStr ''fish swims''\<rparr>]"
    by (simp add: add_def dict_get_def example_data_def Let_def)
  with after_add [OF initial, of ?a]
  have r: "reachable (example_data @ [\<lparr>ident = 1003, name = JStr ''fish'', description = JStr ''fish swims''\<rparr>])"
    by simp
  from r ids_unique_order_kept [OF r] show ?thesis by simp
qed

section \<open>The \<^verbatim>\<open>/delete\<close> handler\<close>

text \<open>
  Against C3 as it is worded. With \<^verbatim>\<open>{"id": null}\<close> the key is there; the sentence
  then has the store scanned and, no id being equal to \<^verbatim>\<open>null\<close>, the answer
  \<^verbatim>\<open>item not found with id None\<close>. The handler answers \<^verbatim>\<open>id parameter required\<close>.
\<close>

theorem delete_counterexample:
  "\<not> claimed_delete (\<lambda>_. ''?'') example_data [(''id'', JNull)]"
  by (simp add: claimed_delete_def delete_def dict_get_def example_data_def int_eq_def py_format_def)

text \<open>
  C3, amended. For every store and every dictionary of arguments: when \<^verbatim>\<open>id\<close> is
  missing or \<^verbatim>\<open>null\<close>, \<^verbatim>\<open>/delete\<close> returns \<^verbatim>\<open>{"error": "id parameter required"}\<close>;
  otherwise it removes the first item, in store order, whose id equals the given value
  under \<^verbatim>\<open>==\<close>, and nothing else, and returns \<^verbatim>\<open>{"deleted": id}\<close>; when no item
  matches it returns \<^verbatim>\<open>{"error": "item not found with id {id}"}\<close> and the store is as
  before. Under \<^verbatim>\<open>==\<close> an integer matches the same integer, a float or a boolean
  matches the integer of the same value, and a string, a list or a dictionary matches
  no id.
\<close>

theorem delete_behaviour:
  "(map_of kvs ''id'' = None \<or> map_of kvs ''id'' = Some JNull \<longrightarrow>
      delete other xs (JObj kvs) = (Inr (JObj [(''error'', JStr ''id parameter required'')]), xs)) \<and>
   (map_of kvs ''id'' = Some v \<and> v \<noteq> JNull \<and> p < length xs \<and> int_eq (ident (xs ! p)) v \<and>
    (\<forall>j<p. \<not> int_eq (ident (xs ! j)) v) \<longrightarrow>
      delete other xs (JObj kvs) = (Inr (JObj [(''deleted'', v)]), take p xs @ drop (Suc p) xs)) \<and>
   (map_of kvs ''id'' = Some v \<and> v \<noteq> JNull \<and> (\<forall>it\<in>set xs. \<not> int_eq (ident it) v) \<longrightarrow>
      delete other xs (JObj kvs) =
        (Inr (JObj [(''error'', JStr (''item not found with id '' @ py_format other v))]), xs)) \<and>
   (int_eq i (JInt k) \<longleftrightarrow> i = k) \<and>
   (int_eq i (JFloat f) \<longleftrightarrow> f = Finite (of_int i)) \<and>
   (int_eq i (JBool b) \<longleftrightarrow> i = (if b then 1 else 0)) \<and>
   \<not> int_eq i (JStr s) \<and> \<not> int_eq i (JList l) \<and> \<not> int_eq i (JObj o')"
proof (intro conjI impI)
  assume "map_of kvs ''id'' = None \<or> map_of kvs ''id'' = Some JNull"
  then have "dict_get kvs ''id'' = JNull" by (auto simp: dict_get_def)
  then show "delete other xs (JObj kvs) = (Inr (JObj [(''error'', JStr ''id parameter required'')]), xs)"
    by (rule delete_required)
next
  assume a: "map_of kvs ''id'' = Some v \<and> v \<noteq> JNull \<and> p < length xs \<and> int_eq (ident (xs ! p)) v \<and>
    (\<forall>j<p. \<not> int_eq (ident (xs ! j)) v)"
  then have v: "dict_get kvs ''id'' = v" by (simp add: dict_get_def)
  from a have "first_match v xs = Some p" by (intro first_match_least) auto
  with a v delete_found [of kvs xs p other]
  show "delete other xs (JObj kvs) = (Inr (JObj [(''deleted'', v)]), take p xs @ drop (Suc p) xs)"
    by simp
next
  assume a: "map_of kvs ''id'' = Some v \<and> v \<noteq> JNull \<and> (\<forall>it\<in>set xs. \<not> int_eq (ident it) v)"
  then have v: "dict_get kvs ''id'' = v" by (simp add: dict_get_def)
  from a have "first_match v xs = None" by (simp add: first_match_None)
  with a v delete_missing [of kvs xs other]
  show "delete other xs (JObj kvs) =
        (Inr (JObj [(''error'', JStr (''item not found with id '' @ py_format other v))]), xs)"
    by simp
next
  show "int_eq i (JFloat f) \<longleftrightarrow> f = Finite (of_int i)"
    by (cases f) (auto simp: int_eq_def)
qed (simp_all add: int_eq_def)

text \<open>The theorem on the initial data: the ids 1000 and 9999, the string \<^verbatim>\<open>"1000"\<close>, and no id.\<close>

theorem delete_behaviour_witness:
  "delete (\<lambda>_. ''?'') example_data (JObj [(''id'', JInt 1000)]) =
     (Inr (JObj [(''deleted'', JInt 1000)]),
      [\<lparr>ident = 1001, name = JStr ''dog'', description = JStr ''dog is barking''\<rparr>,
       \<lparr>ident = 1002, name = JStr ''bird'', description = JStr ''bird is singing''\<rparr>]) \<and>
   delete (\<lambda>_. ''?'') example_data (JObj [(''id'', JInt 9999)]) =
     (Inr (JObj [(''error'', JStr ''item not found with id 9999'')]), example_data) \<and>
   delete (\<lambda>_. ''?'') example_data (JObj [(''id'', JStr ''1000'')]) =
     (Inr (JObj [(''error'', JStr ''item not found with id 1000'')]), example_data) \<and>
   delete (\<lambda>_. ''?'') example_data (JObj []) =
     (Inr (JObj [(''error'', JStr ''id parameter required'')]), example_data)"
proof -
  have s: "show_int 9999 = ''9999''"
    by (simp add: show_int_def digit_def show_nat.simps [of 9999] show_nat.simps [of 999]
        show_nat.simps [of 99] show_nat.simps [of 9])
  from delete_behaviour [where kvs = "[(''id'', JInt 1000)]" and v = "JInt 1000" and p = 0 and xs = example_data and other = "\<lambda>_. ''?''"]
  have a: "delete (\<lambda>_. ''?'') example_data (JObj [(''id'', JInt 1000)]) =
     (Inr (JObj [(''deleted'', JInt 1000)]),
      [\<lparr>ident = 1001, name = JStr ''dog'', description = JStr ''dog is barking''\<rparr>,
       \<lparr>ident = 1002, name = JStr ''bird'', description = JStr ''bird is singing''\<rparr>])"
    by (simp add: example_data_def int_eq_def)
  from delete_behaviour [where kvs = "[(''id'', JInt 9999)]" and v = "JInt 9999" and p = 0 and xs = example_data and other = "\<lambda>_. ''?''"] s
  have b: "delete (\<lambda>_. ''?'') example_data (JObj [(''id'', JInt 9999)]) =
     (Inr (JObj [(''error'', JStr ''item not found with id 9999'')]), example_data)"
    by (simp add: example_data_def int_eq_def py_format_def)
  from delete_behaviour [where kvs = "[(''id'', JStr ''1000'')]" and v = "JStr ''1000''" and p = 0 and xs = example_data and other = "\<lambda>_. ''?''"]
  have c: "delete (\<lambda>_. ''?'') example_data (JObj [(''id'', JStr ''1000'')]) =
     (Inr (JObj [(''error'', JStr ''item not found with id 1000'')]), example_data)"
    by (simp add: example_data_def int_eq_def py_format_def)
  from delete_behaviour [where kvs = "[]" and v = "JNull" and p = 0 and xs = example_data and other = "\<lambda>_. ''?''"]
  have d: "delete (\<lambda>_. ''?'') example_data (JObj []) =
     (Inr (JObj [(''error'', JStr ''id parameter required'')]), example_data)"
    by simp
  from a b c d show ?thesis by simp
qed

section \<open>The \<^verbatim>\<open>/search\<close> handler\<close>





section \<open>The \<^verbatim>\<open>/list\<close> handler\<close>





section \<open>The request counter\<close>





section \<open>POST requests and the content type\<close>



section \<open>Routes without a handler\<close>

text \<open>
  C8. When no handler is registered for the method and the path, the dispatcher answers
  with status 404 and the body \<^verbatim>\<open>{"error": "not found"}\<close>; it has counted the request,
  invoked no handler and left the store unchanged. The registered routes are the five of
  the program, so that \<^verbatim>\<open>GET /nope\<close> gets this answer.
\<close>

theorem unknown_route_not_found:
  "(routing e m path = None \<longrightarrow>
      call_api e st m path args =
        (\<lparr>status = 404, body = Json (JObj [(''error'', JStr ''not found'')])\<rparr>,
         st\<lparr>requests_total := requests_total st + 1\<rparr>) \<and>
      items (snd (call_api e st m path args)) = items st \<and>
      trace (snd (call_api e st m path args)) = trace st) \<and>
   (routing e m path = None \<longleftrightarrow>
      (m, path) \<notin> {(GET, ''/''), (GET, ''/list''), (GET, ''/search''),
                     (POST, ''/add''), (POST, ''/delete'')}) \<and>
   do_GET e st \<lparr>get_path = ''/nope'', query = qs\<rparr> =
     (\<lparr>status = 404, body = Json (JObj [(''error'', JStr ''not found'')])\<rparr>,
      st\<lparr>requests_total := requests_total st + 1\<rparr>)"
proof (intro conjI impI)
  assume "routing e m path = None"
  then show "call_api e st m path args =
        (\<lparr>status = 404, body = Json (JObj [(''error'', JStr ''not found'')])\<rparr>,
         st\<lparr>requests_total := requests_total st + 1\<rparr>)"
    by (simp add: call_api_def Let_def)
  then show "items (snd (call_api e st m path args)) = items st"
    and "trace (snd (call_api e st m path args)) = trace st"
    by simp_all
next
  show "routing e m path = None \<longleftrightarrow>
      (m, path) \<notin> {(GET, ''/''), (GET, ''/list''), (GET, ''/search''),
                     (POST, ''/add''), (POST, ''/delete'')}"
    by (cases m) (simp_all add: routing_def)
next
  show "do_GET e st \<lparr>get_path = ''/nope'', query = qs\<rparr> =
     (\<lparr>status = 404, body = Json (JObj [(''error'', JStr ''not found'')])\<rparr>,
      st\<lparr>requests_total := requests_total st + 1\<rparr>)"
    by (simp add: do_GET_def call_api_def routing_def Let_def)
qed

text \<open>The theorem at two routes that differ from registered ones in the method and in a
  trailing slash.\<close>

theorem unknown_route_not_found_witness:
  "call_api sample_env startup POST ''/list'' (JObj []) =
     (\<lparr>status = 404, body = Json (JObj [(''error'', JStr ''not found'')])\<rparr>,
      startup\<lparr>requests_total := 1\<rparr>) \<and>
   call_api sample_env startup GET ''/list/'' (JObj []) =
     (\<lparr>status = 404, body = Json (JObj [(''error'', JStr ''not found'')])\<rparr>,
      startup\<lparr>requests_total := 1\<rparr>)"
proof -
  have a: "routing sample_env POST ''/list'' = None" by (simp add: routing_def)
  have b: "routing sample_env GET ''/list/'' = None" by (simp add: routing_def)
  have z: "requests_total startup = 0" by (simp add: startup_def)
  from a b z
    unknown_route_not_found [where e = sample_env and m = POST and path = "''/list''"
      and st = startup and args = "JObj []"]
    unknown_route_not_found [where e = sample_env and m = GET and path = "''/list/''"
      and st = startup and args = "JObj []"]
  show ?thesis by simp
qed

section \<open>\<^verbatim>\<open>/add\<close> on the empty store\<close>

text \<open>
  C9. On the empty store \<^verbatim>\<open>/add\<close> raises an \<^verbatim>\<open>IndexError\<close> for every argument, since
  it reads the id of the last item before it looks at the arguments, and the dispatcher
  answers with status 500; on a store that is not empty \<^verbatim>\<open>/add\<close> returns a value for
  every dictionary of arguments.
\<close>

theorem add_on_empty_store_raises:
  "add [] args = (Inl (IndexError ''list index out of range''), []) \<and>
   (items st = [] \<longrightarrow>
      fst (call_api e st POST ''/add'' args) =
        \<lparr>status = 500, body = Json (JObj [(''error'', JStr ''list index out of range'')])\<rparr> \<and>
      items (snd (call_api e st POST ''/add'' args)) = []) \<and>
   (xs \<noteq> [] \<longrightarrow> (\<exists>r. fst (add xs (JObj kvs)) = Inr r))"
proof (intro conjI impI)
  show a: "add [] args = (Inl (IndexError ''list index out of range''), [])"
    by (simp add: add_def)
  assume "items st = []"
  with a show "fst (call_api e st POST ''/add'' args) =
        \<lparr>status = 500, body = Json (JObj [(''error'', JStr ''list index out of range'')])\<rparr>"
    and "items (snd (call_api e st POST ''/add'' args)) = []"
    by (simp_all add: call_api_def routing_def Let_def)
next
  assume "xs \<noteq> []"
  then show "\<exists>r. fst (add xs (JObj kvs)) = Inr r"
    by (simp add: add_def Let_def)
qed

text \<open>The theorem at a server whose store has been emptied, and on the initial data.\<close>

theorem add_on_empty_store_raises_witness:
  "fst (call_api sample_env (startup\<lparr>items := []\<rparr>) POST ''/add''
          (JObj [(''name'', JStr ''fish'')])) =
     \<lparr>status = 500, body = Json (JObj [(''error'', JStr ''list index out of range'')])\<rparr> \<and>
   (\<exists>r. fst (add example_data (JObj [(''name'', JStr ''fish'')])) = Inr r)"
proof -
  have a: "items (startup\<lparr>items := []\<rparr>) = []" by simp
  have b: "example_data \<noteq> []" by (simp add: example_data_def)
  from a b
    add_on_empty_store_raises [where st = "startup\<lparr>items := []\<rparr>" and e = sample_env
      and args = "JObj [(''name'', JStr ''fish'')]" and xs = example_data
      and kvs = "[(''name'', JStr ''fish'')]"]
  show ?thesis by simp
qed

section \<open>The GET handlers do not change the store\<close>

lemma call_api_GET_items: "items (snd (call_api e st GET path args)) = items st"
  by (auto simp: call_api_def routing_def Let_def index_def list_items_def search_def
      split: option.splits prod.splits sum.splits if_splits)

text \<open>
  C10. \<^verbatim>\<open>index\<close>, \<^verbatim>\<open>list_items\<close> and \<^verbatim>\<open>search\<close> leave the store as they found it
  whenever they return a value; they also do when \<^verbatim>\<open>search\<close> raises, and so does every
  GET request.
\<close>

theorem get_handlers_keep_store:
  "(index hostname xs args = (Inr r, ys) \<longrightarrow> ys = xs) \<and>
   (list_items xs args = (Inr r, ys) \<longrightarrow> ys = xs) \<and>
   (search xs args = (Inr r, ys) \<longrightarrow> ys = xs) \<and>
   snd (index hostname xs args) = xs \<and> snd (list_items xs args) = xs \<and> snd (search xs args) = xs \<and>
   items (snd (do_GET e st rq)) = items st"
proof -
  have i: "snd (index hostname xs args) = xs" by (simp add: index_def)
  have l: "snd (list_items xs args) = xs" by (simp add: list_items_def)
  have s: "snd (search xs args) = xs"
    by (cases "args_get args ''q''") (simp_all add: search_def split: sum.splits)
  have g: "items (snd (do_GET e st rq)) = items st"
    by (simp add: do_GET_def Let_def call_api_GET_items)
  from i l s g show ?thesis by (metis snd_conv)
qed

text \<open>The theorem at a search on the initial data.\<close>

theorem get_handlers_keep_store_witness:
  "search example_data (JObj [(''q'', JStr ''zebra'')]) =
     (Inr (JObj [(''count'', JInt 0), (''items'', JList [])]), example_data) \<and>
   snd (search example_data (JObj [(''q'', JStr ''zebra'')])) = example_data"
proof -
  have a: "search example_data (JObj [(''q'', JStr ''zebra'')]) =
     (Inr (JObj [(''count'', JInt 0), (''items'', JList [])]), example_data)"
    by (simp add: search_def dict_get_def example_data_def py_in_def sublist_Cons_right)
  from a get_handlers_keep_store [where xs = example_data and args = "JObj [(''q'', JStr ''zebra'')]"
      and r = "JObj [(''count'', JInt 0), (''items'', JList [])]" and ys = example_data]
  show ?thesis by simp
qed

end
